theory Spec2Isabelle
  imports Main
begin

section \<open>The permission middleware of package bperm\<close>

text \<open>
  The package keeps, per category, a list of URL path prefixes and decides for each request
  whether it is rejected. The Go code mutates one \<^verbatim>\<open>*Permissions\<close> in place and calls
  handlers and the user state for their effects. Here every method takes the struct and
  returns the updated one, and everything outside the struct that a call can change (the
  response being written, the session store behind the user state) is one value \<open>'w\<close>,
  passed in and returned.
\<close>

subsection \<open>Data\<close>

text \<open>\<^verbatim>\<open>type Paths string\<close> with its three constants (the spelling of the third is the source's).\<close>

type_synonym Paths = string

definition aPaths :: Paths where
  "aPaths = ''AdminPaths''"

definition uPaths :: Paths where
  "uPaths = ''UserPaths''"

definition pPaths :: Paths where
  "pPaths = ''PubblicPaths''"

text \<open>A Go \<^verbatim>\<open>error\<close> value; \<^verbatim>\<open>nil\<close> is \<open>None\<close> of \<open>error option\<close>.\<close>

datatype error = Error string

text \<open>
  Of \<^verbatim>\<open>*http.Request\<close> the code reads \<^verbatim>\<open>req.URL.Path\<close> and hands the request on;
  \<open>Header\<close> stands for what the user state reads of it. The URL of a request that a
  server hands to a handler is never nil, so reading the path cannot fail.
\<close>

record Request =
  Path :: string
  Header :: "(string \<times> string) list"

text \<open>
  \<^verbatim>\<open>http.ResponseWriter\<close> is an interface: a value of it is its methods, each acting on \<open>'w\<close>.
  \<open>HeaderSet w k v\<close> is \<^verbatim>\<open>w.Header().Set(k, v)\<close>.
\<close>

record 'w ResponseWriter =
  HeaderSet :: "string \<Rightarrow> string \<Rightarrow> 'w \<Rightarrow> 'w"
  WriteHeader :: "int \<Rightarrow> 'w \<Rightarrow> 'w"
  Write :: "string \<Rightarrow> 'w \<Rightarrow> 'w"

type_synonym 'w HandlerFunc = "'w ResponseWriter \<Rightarrow> Request \<Rightarrow> 'w \<Rightarrow> 'w"

text \<open>
  \<^verbatim>\<open>UserState\<close> is declared in another file of the package. This file uses one method of
  it, \<^verbatim>\<open>IsCurrentUserAdmin(req) (bool, error)\<close>, so the handle is that method: any function
  from the request and the world to an answer and the world after the call. Nothing is
  assumed about the answer: in particular the flag may be true beside a non-nil error, and
  two calls may answer differently.
\<close>

record 'w UserState =
  IsCurrentUserAdmin :: "Request \<Rightarrow> 'w \<Rightarrow> (bool \<times> error option) \<times> 'w"

text \<open>
  The struct. \<open>paths\<close> is a Go map from \<^verbatim>\<open>Paths\<close> to \<^verbatim>\<open>[]string\<close>; the handle and
  the handler are taken to be non-nil, as every constructor of the package leaves them.
\<close>

record 'w Permissions =
  state :: "'w UserState"
  paths :: "Paths \<rightharpoonup> string list"
  rootIsPublic :: bool
  denied :: "'w HandlerFunc"

text \<open>Reading \<^verbatim>\<open>m[k]\<close>: a key that is absent gives the nil slice, which ranges over nothing.\<close>

definition index :: "(Paths \<rightharpoonup> string list) \<Rightarrow> Paths \<Rightarrow> string list" where
  "index m k = (case m k of None \<Rightarrow> [] | Some prefixes \<Rightarrow> prefixes)"

subsection \<open>Library functions the code calls\<close>

text \<open>
  \<^verbatim>\<open>strings.HasPrefix(s, prefix)\<close> is
  \<^verbatim>\<open>len(s) >= len(prefix) && s[:len(prefix)] == prefix\<close>, on bytes.
\<close>

definition HasPrefix :: "string \<Rightarrow> string \<Rightarrow> bool" where
  "HasPrefix s prefix = (length prefix \<le> length s \<and> take (length prefix) s = prefix)"

text \<open>
  \<^verbatim>\<open>http.Error(w, error, code)\<close> of net/http: it sets the content type to plain text and
  \<^verbatim>\<open>X-Content-Type-Options: nosniff\<close>, writes the status code, then the message and a
  newline.
\<close>

definition http_Error :: "'w ResponseWriter \<Rightarrow> string \<Rightarrow> int \<Rightarrow> 'w \<Rightarrow> 'w" where
  "http_Error w err code s =
     Write w (err @ [CHR 0x0A])
       (WriteHeader w code
         (HeaderSet w ''X-Content-Type-Options'' ''nosniff''
           (HeaderSet w ''Content-Type'' ''text/plain; charset=utf-8'' s)))"

definition StatusForbidden :: int where
  "StatusForbidden = 403"

subsection \<open>Construction and configuration\<close>

definition DefaultDenyFunc :: "'w HandlerFunc" where
  "DefaultDenyFunc w req = http_Error w ''Permission denied.'' StatusForbidden"

definition NewFromUserState :: "'w UserState \<Rightarrow> 'w Permissions" where
  "NewFromUserState st =
     \<lparr>state = st,
      paths = [aPaths \<mapsto> [''/admin''],
               uPaths \<mapsto> [''/profiles'', ''/data''],
               pPaths \<mapsto> [''/'', ''/login'', ''/register'',
                          ''/favicon.ico'', ''/style'',
                          ''/img'', ''/js'', ''/favicon.ico'',
                          ''/robots.txt'', ''/sitemap_index.xml'']],
      rootIsPublic = True,
      denied = DefaultDenyFunc\<rparr>"

definition SetDenyFunc :: "'w Permissions \<Rightarrow> 'w HandlerFunc \<Rightarrow> 'w Permissions" where
  "SetDenyFunc perm f = perm\<lparr>denied := f\<rparr>"

definition GetDenyFunc :: "'w Permissions \<Rightarrow> 'w HandlerFunc" where
  "GetDenyFunc perm = denied perm"

definition GetUserState :: "'w Permissions \<Rightarrow> 'w UserState" where
  "GetUserState perm = state perm"

text \<open>
  \<^verbatim>\<open>AddPath\<close> appends in place: what it does to the other lists depends on the backing
  arrays that the slices share, which the lists here do not carry. It is left out, and
  nothing below speaks of it.
\<close>

definition SetPath :: "'w Permissions \<Rightarrow> Paths \<Rightarrow> string list \<Rightarrow> 'w Permissions" where
  "SetPath perm valid pathPrefixes = perm\<lparr>paths := (paths perm)(valid \<mapsto> pathPrefixes)\<rparr>"

definition Reset :: "'w Permissions \<Rightarrow> 'w Permissions" where
  "Reset perm = perm\<lparr>paths := (paths perm)(aPaths \<mapsto> [], uPaths \<mapsto> [])\<rparr>"

subsection \<open>The decision\<close>

text \<open>
  The first loop of \<^verbatim>\<open>Rejected\<close>, over the admin prefixes: at each prefix of the path the
  user state is asked, the error of its answer is dropped (\<^verbatim>\<open>ok, _ :=\<close>), and the loop
  breaks with \<^verbatim>\<open>reject = true\<close> at the first answer that is not ok. The result is
  \<^verbatim>\<open>reject\<close> and the world after the calls made.
\<close>

fun Rejected_admin ::
  "'w UserState \<Rightarrow> Request \<Rightarrow> string \<Rightarrow> string list \<Rightarrow> 'w \<Rightarrow> bool \<times> 'w" where
  "Rejected_admin st req path [] s = (False, s)"
| "Rejected_admin st req path (prefix # rest) s =
     (if HasPrefix path prefix then
        (case IsCurrentUserAdmin st req s of
           ((ok, _), s') \<Rightarrow>
             if \<not> ok then (True, s') else Rejected_admin st req path rest s')
      else Rejected_admin st req path rest s)"

text \<open>The last loop, over the public prefixes: the value of \<^verbatim>\<open>found\<close> after it.\<close>

fun Rejected_public :: "string \<Rightarrow> string list \<Rightarrow> bool" where
  "Rejected_public path [] = False"
| "Rejected_public path (prefix # rest) =
     (if HasPrefix path prefix then True else Rejected_public path rest)"

text \<open>
  \<^verbatim>\<open>Rejected(w, req)\<close>. The block for user pages between the two loops is empty in the
  source, so the user prefixes are never read.
\<close>

definition Rejected ::
  "'w Permissions \<Rightarrow> 'w ResponseWriter \<Rightarrow> Request \<Rightarrow> 'w \<Rightarrow> bool \<times> 'w" where
  "Rejected perm w req s =
     (let path = Path req in
      if \<not> (rootIsPublic perm \<and> path = ''/'') then
        (case Rejected_admin (state perm) req path (index (paths perm) aPaths) s of
           (reject, s') \<Rightarrow>
             if \<not> reject then
               (let found = Rejected_public path (index (paths perm) pPaths) in
                if \<not> found then (True, s') else (reject, s'))
             else (reject, s'))
      else (False, s))"

text \<open>The middleware handler: the world after the request has been served.\<close>

definition ServeHTTP ::
  "'w Permissions \<Rightarrow> 'w ResponseWriter \<Rightarrow> Request \<Rightarrow> 'w HandlerFunc \<Rightarrow> 'w \<Rightarrow> 'w" where
  "ServeHTTP perm w req next s =
     (case Rejected perm w req s of
        (rejected, s') \<Rightarrow>
          if rejected then GetDenyFunc perm w req s'
          else next w req s')"

subsection \<open>A concrete world, to run the code on\<close>

text \<open>
  A world that records what is written to the one response in flight and counts the calls
  of the user state; \<open>recorder\<close> is a response writer on it that keeps the first status
  code and takes 200 when the body is written first, as the server's own writer does.
\<close>

record World =
  headers :: "string \<rightharpoonup> string"
  status :: "int option"
  body :: string
  queries :: nat

definition world0 :: World where
  "world0 = \<lparr>headers = Map.empty, status = None, body = [], queries = 0\<rparr>"

definition recorder :: "World ResponseWriter" where
  "recorder =
     \<lparr>HeaderSet = (\<lambda>k v s. s\<lparr>headers := (headers s)(k \<mapsto> v)\<rparr>),
      WriteHeader = (\<lambda>code s. if status s = None then s\<lparr>status := Some code\<rparr> else s),
      Write = (\<lambda>b s. s\<lparr>status := (if status s = None then Some 200 else status s),
                         body := body s @ b\<rparr>)\<rparr>"

text \<open>A user state that gives the same answer at every call, and counts the calls.\<close>

definition answering :: "bool \<Rightarrow> error option \<Rightarrow> World UserState" where
  "answering ok err =
     \<lparr>IsCurrentUserAdmin = (\<lambda>req s. ((ok, err), s\<lparr>queries := Suc (queries s)\<rparr>))\<rparr>"

text \<open>A next handler, which writes a page.\<close>

definition page :: "World HandlerFunc" where
  "page w req = Write w ''page''"

text \<open>A deny handler other than the default one: it asks for a login, with status 401.\<close>

definition loginFirst :: "World HandlerFunc" where
  "loginFirst w req = http_Error w ''Log in first.'' 401"

definition request :: "string \<Rightarrow> Request" where
  "request p = \<lparr>Path = p, Header = []\<rparr>"

text \<open>
  The user state with the errors of its answers erased: what \<^verbatim>\<open>Rejected\<close> would see if
  every call came back with a nil error and the same flag.
\<close>

definition withoutErrors :: "'w UserState \<Rightarrow> 'w UserState" where
  "withoutErrors st =
     \<lparr>IsCurrentUserAdmin =
        (\<lambda>req s. case IsCurrentUserAdmin st req s of ((ok, _), s') \<Rightarrow> ((ok, None), s'))\<rparr>"

section \<open>Properties\<close>

subsection \<open>The two loops\<close>

lemma HasPrefix_append: "HasPrefix s prefix \<longleftrightarrow> (\<exists>rest. s = prefix @ rest)"
proof
  assume "HasPrefix s prefix"
  then have "s = prefix @ drop (length prefix) s"
    by (metis HasPrefix_def append_take_drop_id)
  then show "\<exists>rest. s = prefix @ rest" ..
next
  assume "\<exists>rest. s = prefix @ rest"
  then show "HasPrefix s prefix"
    by (auto simp: HasPrefix_def)
qed

lemma HasPrefix_slash: "HasPrefix (CHR ''/'' # rest) ''/''"
  by (simp add: HasPrefix_def)

lemma Rejected_admin_no_match:
  "list_all (\<lambda>prefix. \<not> HasPrefix path prefix) prefixes \<Longrightarrow>
   Rejected_admin st req path prefixes s = (False, s)"
  by (induction prefixes) simp_all

lemma Rejected_admin_first_answer:
  assumes "list_ex (HasPrefix path) prefixes"
    and "IsCurrentUserAdmin st req s = ((False, err), s')"
  shows "Rejected_admin st req path prefixes s = (True, s')"
  using assms by (induction prefixes) auto

lemma Rejected_admin_withoutErrors:
  "Rejected_admin (withoutErrors st) req path prefixes s = Rejected_admin st req path prefixes s"
  by (induction prefixes arbitrary: s) (auto simp: withoutErrors_def split: prod.splits)

lemma Rejected_public_iff: "Rejected_public path prefixes \<longleftrightarrow> list_ex (HasPrefix path) prefixes"
  by (induction prefixes) simp_all

lemma index_default_admin: "index (paths (NewFromUserState st)) aPaths = [''/admin'']"
  by (simp add: index_def NewFromUserState_def aPaths_def uPaths_def pPaths_def)

lemma index_default_public:
  "index (paths (NewFromUserState st)) pPaths =
     [''/'', ''/login'', ''/register'', ''/favicon.ico'', ''/style'',
      ''/img'', ''/js'', ''/favicon.ico'', ''/robots.txt'', ''/sitemap_index.xml'']"
  by (simp add: index_def NewFromUserState_def aPaths_def uPaths_def pPaths_def)

lemma Rejected_withoutErrors:
  "Rejected (perm\<lparr>state := withoutErrors (state perm)\<rparr>) w req s = Rejected perm w req s"
  by (simp add: Rejected_def Let_def Rejected_admin_withoutErrors split: prod.splits)

lemma ServeHTTP_withoutErrors:
  "ServeHTTP (perm\<lparr>state := withoutErrors (state perm)\<rparr>) w req next s =
     ServeHTTP perm w req next s"
  by (simp add: ServeHTTP_def Rejected_withoutErrors GetDenyFunc_def split: prod.splits)

text \<open>
  Past the test for the root, the verdict is that of the admin loop, or else whether the
  public loop found nothing; the world is the one the admin loop leaves.
\<close>

lemma Rejected_stages:
  assumes "\<not> (rootIsPublic perm \<and> Path req = ''/'')"
    and "Rejected_admin (state perm) req (Path req) (index (paths perm) aPaths) s = (reject, s')"
  shows "Rejected perm w req s =
           (reject \<or> \<not> Rejected_public (Path req) (index (paths perm) pPaths), s')"
  using assms by (auto simp: Rejected_def Let_def)

lemma state_default: "state (NewFromUserState st) = st"
  by (simp add: NewFromUserState_def)

lemma rootIsPublic_default: "rootIsPublic (NewFromUserState st)"
  by (simp add: NewFromUserState_def)

lemma denied_default: "denied (NewFromUserState st) = DefaultDenyFunc"
  by (simp add: NewFromUserState_def)

lemma state_update_default: "(NewFromUserState st)\<lparr>state := st'\<rparr> = NewFromUserState st'"
  by (simp add: NewFromUserState_def)

lemma Rejected_SetDenyFunc: "Rejected (SetDenyFunc perm f) w req s = Rejected perm w req s"
  by (simp add: Rejected_def Let_def SetDenyFunc_def split: prod.splits)

text \<open>The equations that run the decision, and the handler, on a concrete input.\<close>

lemmas run_defs =
  Rejected_def Let_def index_def NewFromUserState_def aPaths_def uPaths_def pPaths_def
  HasPrefix_def answering_def request_def world0_def Reset_def SetPath_def

lemmas serve_defs =
  ServeHTTP_def GetDenyFunc_def SetDenyFunc_def DefaultDenyFunc_def http_Error_def
  StatusForbidden_def recorder_def page_def loginFirst_def

subsection \<open>The default configuration on an admin page, for an admin\<close>

text \<open>
  With the configuration of \<^verbatim>\<open>NewFromUserState\<close>, a request for \<^verbatim>\<open>/admin/dashboard\<close>
  from a caller whom the user state reports as admin is not rejected.
\<close>

theorem default_admin_page_as_admin_not_rejected:
  "\<not> fst (Rejected (NewFromUserState (answering True None)) recorder
            (request ''/admin/dashboard'') world0)"
  by (simp add: run_defs)

text \<open>
  C1, as the code has it. With the default configuration, for the path
  \<^verbatim>\<open>/admin/dashboard\<close>, when the user state answers (true, nil): the request is allowed.
  The user state is asked once, at the admin prefix \<^verbatim>\<open>/admin\<close>; passing that check
  sends the path on to the public prefixes, and the first of them, \<^verbatim>\<open>/\<close>, is a prefix of
  the path.
\<close>

theorem default_admin_page_as_admin:
  assumes "Path req = ''/admin/dashboard''"
    and "IsCurrentUserAdmin st req s = ((True, None), s')"
  shows "Rejected (NewFromUserState st) w req s = (False, s')"
proof -
  have "Rejected_admin st req (Path req) [''/admin''] s = (False, s')"
    using assms by (simp add: HasPrefix_def)
  then have "Rejected (NewFromUserState st) w req s =
      (False \<or> \<not> Rejected_public (Path req) (index (paths (NewFromUserState st)) pPaths), s')"
    using assms(1) by (intro Rejected_stages) (simp_all add: state_default index_default_admin)
  then show ?thesis
    using assms(1) by (simp add: index_default_public HasPrefix_def)
qed

theorem default_admin_page_as_admin_witness:
  "Rejected (NewFromUserState (answering True None)) recorder
     (request ''/admin/dashboard'') world0 = (False, world0\<lparr>queries := 1\<rparr>)"
  using default_admin_page_as_admin
    [of "request ''/admin/dashboard''" "answering True None" world0
        "world0\<lparr>queries := 1\<rparr>" recorder]
  by (simp add: request_def answering_def world0_def)

subsection \<open>The default configuration on a path that no list names\<close>

text \<open>
  With the default configuration, a request for \<^verbatim>\<open>/unknown/page\<close> from a caller who is not
  an admin is not rejected.
\<close>

theorem default_unknown_page_not_rejected:
  "\<not> fst (Rejected (NewFromUserState (answering False None)) recorder
            (request ''/unknown/page'') world0)"
  by (simp add: run_defs)

text \<open>
  C2, as the code has it. With the default configuration, for the path
  \<^verbatim>\<open>/unknown/page\<close>, whatever the user state would answer: the request is allowed, and the
  user state is not asked. The path has no admin prefix, and it has the public prefix
  \<^verbatim>\<open>/\<close>.
\<close>

theorem default_unknown_page:
  "Rejected (NewFromUserState st) w (req\<lparr>Path := ''/unknown/page''\<rparr>) s = (False, s)"
proof -
  let ?req = "req\<lparr>Path := ''/unknown/page''\<rparr>"
  have "Rejected_admin st ?req (Path ?req) [''/admin''] s = (False, s)"
    by (simp add: HasPrefix_def)
  then have "Rejected (NewFromUserState st) w ?req s =
      (False \<or> \<not> Rejected_public (Path ?req) (index (paths (NewFromUserState st)) pPaths), s)"
    by (intro Rejected_stages) (simp_all add: state_default index_default_admin)
  then show ?thesis
    by (simp add: index_default_public HasPrefix_def)
qed

theorem default_unknown_page_witness:
  "Rejected (NewFromUserState (answering False None)) recorder
     (request ''/unknown/page'') world0 = (False, world0)"
  using default_unknown_page [of "answering False None" recorder "request ''/''" world0]
  by (simp add: request_def)

subsection \<open>After Reset\<close>

text \<open>
  After \<^verbatim>\<open>Reset\<close> on the default configuration, a request for \<^verbatim>\<open>/admin/dashboard\<close> from
  a caller who is not an admin is not rejected.
\<close>

theorem reset_admin_page_not_rejected:
  "\<not> fst (Rejected (Reset (NewFromUserState (answering False None))) recorder
            (request ''/admin/dashboard'') world0)"
  by (simp add: run_defs)

text \<open>
  C3, as the code has it. After \<^verbatim>\<open>Reset\<close> on the default configuration, for the path
  \<^verbatim>\<open>/admin/dashboard\<close>, whatever the user state would answer: the request is allowed, and
  the user state is not asked. The admin list is empty, and the public list, which
  \<^verbatim>\<open>Reset\<close> leaves alone, has the prefix \<^verbatim>\<open>/\<close>.
\<close>

theorem reset_admin_page:
  "Rejected (Reset (NewFromUserState st)) w (req\<lparr>Path := ''/admin/dashboard''\<rparr>) s = (False, s)"
  by (simp add: Rejected_def Let_def index_def Reset_def HasPrefix_def
      NewFromUserState_def aPaths_def uPaths_def pPaths_def)

theorem reset_admin_page_witness:
  "Rejected (Reset (NewFromUserState (answering False None))) recorder
     (request ''/admin/dashboard'') world0 = (False, world0)"
  using reset_admin_page [of "answering False None" recorder "request ''/''" world0]
  by (simp add: request_def)

subsection \<open>An error of the user state\<close>

text \<open>
  The error of an answer is dropped and its flag alone is read. On the default
  configuration an answer (true, error) lets \<^verbatim>\<open>/admin/dashboard\<close> through, where
  (false, nil) rejects it. And where the admin list names \<^verbatim>\<open>/\<close> and the root is public,
  the path \<^verbatim>\<open>/\<close> has an admin prefix and is let through on an answer (false, error).
\<close>

theorem query_error_counterexample:
  "\<not> fst (Rejected (NewFromUserState (answering True (Some (Error ''store unreachable''))))
            recorder (request ''/admin/dashboard'') world0)
   \<and> fst (Rejected (NewFromUserState (answering False None))
            recorder (request ''/admin/dashboard'') world0)
   \<and> HasPrefix ''/'' ''/''
   \<and> \<not> fst (Rejected
              (SetPath (NewFromUserState (answering False (Some (Error ''store unreachable''))))
                 aPaths [''/''])
              recorder (request ''/'') world0)"
  by (simp add: run_defs)

text \<open>
  C4, as the code has it. For every rule table and every path that has an admin prefix,
  other than the path \<^verbatim>\<open>/\<close> while the root is public: when the user state answers with
  an error beside a false flag, the request is rejected, with the verdict and the world that
  any user state answering (false, nil) there gives. The evaluation reads the flag only, and
  no error comes out of it or of the middleware: the handler does the same when every error
  of the user state is replaced by nil.
\<close>

theorem query_error_with_false_flag:
  assumes "\<not> (rootIsPublic perm \<and> Path req = ''/'')"
    and "list_ex (HasPrefix (Path req)) (index (paths perm) aPaths)"
    and "IsCurrentUserAdmin (state perm) req s = ((False, Some e), s')"
    and "IsCurrentUserAdmin st req s = ((False, None), s')"
  shows "Rejected perm w req s = (True, s')
       \<and> Rejected (perm\<lparr>state := st\<rparr>) w req s = Rejected perm w req s
       \<and> ServeHTTP (perm\<lparr>state := withoutErrors (state perm)\<rparr>) w req next s =
           ServeHTTP perm w req next s"
proof -
  have "Rejected_admin (state perm) req (Path req) (index (paths perm) aPaths) s = (True, s')"
    using assms(2,3) by (rule Rejected_admin_first_answer)
  with assms(1) have deny: "Rejected perm w req s = (True, s')"
    by (simp add: Rejected_stages)
  have "Rejected_admin st req (Path req) (index (paths perm) aPaths) s = (True, s')"
    using assms(2,4) by (rule Rejected_admin_first_answer)
  with assms(1) have "Rejected (perm\<lparr>state := st\<rparr>) w req s = (True, s')"
    by (simp add: Rejected_stages)
  with deny show ?thesis
    by (simp add: ServeHTTP_withoutErrors)
qed

theorem query_error_with_false_flag_witness:
  "Rejected (NewFromUserState (answering False (Some (Error ''store unreachable''))))
      recorder (request ''/admin/dashboard'') world0 = (True, world0\<lparr>queries := 1\<rparr>)
   \<and> Rejected (NewFromUserState (answering False None))
      recorder (request ''/admin/dashboard'') world0 = (True, world0\<lparr>queries := 1\<rparr>)"
  using query_error_with_false_flag
    [of "NewFromUserState (answering False (Some (Error ''store unreachable'')))"
        "request ''/admin/dashboard''" world0 "Error ''store unreachable''"
        "world0\<lparr>queries := 1\<rparr>" "answering False None" recorder page]
  by (simp add: state_default rootIsPublic_default index_default_admin HasPrefix_def
      state_update_default request_def answering_def world0_def)

subsection \<open>The root\<close>

text \<open>
  C5. For every rule table and every user state, when the root is public and the path is
  exactly \<^verbatim>\<open>/\<close>, the request is allowed, and neither loop runs: the user state is not
  asked.
\<close>

theorem root_is_public:
  assumes "rootIsPublic perm" and "Path req = ''/''"
  shows "Rejected perm w req s = (False, s)"
  using assms by (simp add: Rejected_def)

theorem root_is_public_witness:
  "Rejected (SetPath (SetPath (NewFromUserState (answering False (Some (Error ''no session''))))
       aPaths [''/'']) pPaths []) recorder (request ''/'') world0 = (False, world0)"
  using root_is_public
    [of "SetPath (SetPath (NewFromUserState (answering False (Some (Error ''no session''))))
       aPaths [''/'']) pPaths []" "request ''/''" recorder world0]
  by (simp add: SetPath_def NewFromUserState_def request_def)

subsection \<open>An admin page, for a caller who is not an admin\<close>

text \<open>
  Where the admin list names \<^verbatim>\<open>/\<close> and the root is public, the path \<^verbatim>\<open>/\<close> has an
  admin prefix, and a caller who is not an admin is let through: the test for the root comes
  before the admin loop.
\<close>

theorem admin_prefix_root_counterexample:
  "HasPrefix ''/'' ''/''
   \<and> \<not> fst (Rejected (SetPath (NewFromUserState (answering False None)) aPaths [''/''])
              recorder (request ''/'') world0)"
  by (simp add: run_defs)

text \<open>
  C6, as the code has it. For every rule table and every path that has an admin prefix,
  other than the path \<^verbatim>\<open>/\<close> while the root is public: when the user state answers
  (false, nil), the request is rejected after that one call, whatever the public list
  holds, so also when the path has a public prefix.
\<close>

theorem admin_prefix_not_admin:
  assumes "\<not> (rootIsPublic perm \<and> Path req = ''/'')"
    and "list_ex (HasPrefix (Path req)) (index (paths perm) aPaths)"
    and "IsCurrentUserAdmin (state perm) req s = ((False, None), s')"
  shows "Rejected perm w req s = (True, s')"
proof -
  have "Rejected_admin (state perm) req (Path req) (index (paths perm) aPaths) s = (True, s')"
    using assms(2,3) by (rule Rejected_admin_first_answer)
  with assms(1) show ?thesis
    by (simp add: Rejected_stages)
qed

theorem admin_prefix_not_admin_witness:
  "Rejected_public ''/admin/dashboard''
      (index (paths (NewFromUserState (answering False None))) pPaths)
   \<and> Rejected (NewFromUserState (answering False None))
      recorder (request ''/admin/dashboard'') world0 = (True, world0\<lparr>queries := 1\<rparr>)"
  using admin_prefix_not_admin
    [of "NewFromUserState (answering False None)"
        "request ''/admin/dashboard''" world0 "world0\<lparr>queries := 1\<rparr>" recorder]
  by (simp add: state_default rootIsPublic_default index_default_admin index_default_public
      HasPrefix_def request_def answering_def world0_def)

subsection \<open>The middleware handler\<close>

text \<open>
  C7. For every request: when the evaluation rejects, \<^verbatim>\<open>ServeHTTP\<close> does what the deny
  handler held by the struct at that moment does, on the world that the evaluation leaves,
  and the next handler has no part in the result; after \<^verbatim>\<open>SetDenyFunc\<close> that handler is
  the one last set, whatever was configured before. When the evaluation does not reject,
  \<^verbatim>\<open>ServeHTTP\<close> does what the next handler does, and the deny handler, whichever is set,
  has no part. Setting the deny handler does not change the evaluation.
\<close>

theorem ServeHTTP_denied_or_next:
  "(fst (Rejected perm w req s) \<longrightarrow>
      ServeHTTP perm w req next s = denied perm w req (snd (Rejected perm w req s))
      \<and> ServeHTTP (SetDenyFunc perm f) w req next s = f w req (snd (Rejected perm w req s)))
   \<and> (\<not> fst (Rejected perm w req s) \<longrightarrow>
      ServeHTTP perm w req next s = next w req (snd (Rejected perm w req s))
      \<and> ServeHTTP (SetDenyFunc perm f) w req next s = next w req (snd (Rejected perm w req s)))
   \<and> Rejected (SetDenyFunc perm f) w req s = Rejected perm w req s
   \<and> GetDenyFunc (SetDenyFunc perm f) = f
   \<and> GetDenyFunc perm = denied perm"
proof -
  obtain rejected s' where run: "Rejected perm w req s = (rejected, s')"
    by (cases "Rejected perm w req s")
  then have run_set: "Rejected (SetDenyFunc perm f) w req s = (rejected, s')"
    by (simp add: Rejected_SetDenyFunc)
  have get: "GetDenyFunc (SetDenyFunc perm f) = f" "GetDenyFunc perm = denied perm"
    by (simp_all add: GetDenyFunc_def SetDenyFunc_def)
  have "ServeHTTP perm w req next s = (if rejected then denied perm w req s' else next w req s')"
    using run by (simp add: ServeHTTP_def get)
  moreover have "ServeHTTP (SetDenyFunc perm f) w req next s =
      (if rejected then f w req s' else next w req s')"
    using run_set by (simp add: ServeHTTP_def get)
  ultimately show ?thesis
    using run run_set get by simp
qed

theorem ServeHTTP_denied_or_next_witness:
  "fst (Rejected (NewFromUserState (answering False None)) recorder
          (request ''/admin/dashboard'') world0)
   \<and> ServeHTTP (NewFromUserState (answering False None)) recorder
        (request ''/admin/dashboard'') page world0 =
      world0\<lparr>headers := [''Content-Type'' \<mapsto> ''text/plain; charset=utf-8'',
                           ''X-Content-Type-Options'' \<mapsto> ''nosniff''],
              status := Some 403, body := ''Permission denied.'' @ [CHR 0x0A], queries := 1\<rparr>
   \<and> ServeHTTP (SetDenyFunc (NewFromUserState (answering False None)) loginFirst) recorder
        (request ''/admin/dashboard'') page world0 =
      world0\<lparr>headers := [''Content-Type'' \<mapsto> ''text/plain; charset=utf-8'',
                           ''X-Content-Type-Options'' \<mapsto> ''nosniff''],
              status := Some 401, body := ''Log in first.'' @ [CHR 0x0A], queries := 1\<rparr>
   \<and> \<not> fst (Rejected (NewFromUserState (answering False None)) recorder
          (request ''/login'') world0)
   \<and> ServeHTTP (SetDenyFunc (NewFromUserState (answering False None)) loginFirst) recorder
        (request ''/login'') page world0 =
      world0\<lparr>status := Some 200, body := ''page''\<rparr>"
  using ServeHTTP_denied_or_next
    [of "NewFromUserState (answering False None)" recorder "request ''/admin/dashboard''"
        world0 page loginFirst]
    ServeHTTP_denied_or_next
    [of "NewFromUserState (answering False None)" recorder "request ''/login''"
        world0 page loginFirst]
  by (simp add: run_defs serve_defs)

subsection \<open>What Reset changes\<close>

text \<open>
  C8. From every state of the struct, \<^verbatim>\<open>Reset\<close> leaves the admin and the user list
  empty, and leaves as they were the public list (as every entry of the map under another
  key), the flag for the root, the deny handler and the user state.
\<close>

theorem Reset_frame:
  "index (paths (Reset perm)) aPaths = []
   \<and> index (paths (Reset perm)) uPaths = []
   \<and> paths (Reset perm) pPaths = paths perm pPaths
   \<and> (k \<noteq> aPaths \<and> k \<noteq> uPaths \<longrightarrow> paths (Reset perm) k = paths perm k)
   \<and> rootIsPublic (Reset perm) = rootIsPublic perm
   \<and> GetDenyFunc (Reset perm) = GetDenyFunc perm
   \<and> GetUserState (Reset perm) = GetUserState perm"
  by (simp add: Reset_def index_def GetDenyFunc_def GetUserState_def
      aPaths_def uPaths_def pPaths_def)

theorem Reset_frame_witness:
  "index (paths (Reset (NewFromUserState (answering False None)))) aPaths = []
   \<and> index (paths (Reset (NewFromUserState (answering False None)))) uPaths = []
   \<and> index (paths (Reset (NewFromUserState (answering False None)))) pPaths =
       [''/'', ''/login'', ''/register'', ''/favicon.ico'', ''/style'',
        ''/img'', ''/js'', ''/favicon.ico'', ''/robots.txt'', ''/sitemap_index.xml'']
   \<and> rootIsPublic (Reset (NewFromUserState (answering False None)))
   \<and> GetDenyFunc (Reset (NewFromUserState (answering False None))) = DefaultDenyFunc
   \<and> GetUserState (Reset (NewFromUserState (answering False None))) = answering False None"
  using Reset_frame [of "NewFromUserState (answering False None)" pPaths]
  by (simp add: index_def NewFromUserState_def GetDenyFunc_def GetUserState_def
      aPaths_def uPaths_def pPaths_def)

subsection \<open>The defaults\<close>

text \<open>
  The public list of \<^verbatim>\<open>NewFromUserState\<close> is not the list of nine prefixes: it has ten
  entries.
\<close>

theorem default_public_list_counterexample:
  "index (paths (NewFromUserState (answering False None))) pPaths \<noteq>
     [''/'', ''/login'', ''/register'', ''/favicon.ico'', ''/style'',
      ''/img'', ''/js'', ''/robots.txt'', ''/sitemap_index.xml'']"
  by (simp add: index_default_public)

text \<open>
  C9, as the code has it. \<^verbatim>\<open>NewFromUserState\<close> seeds the admin list with
  \<^verbatim>\<open>/admin\<close>, the user list with \<^verbatim>\<open>/profiles\<close> and \<^verbatim>\<open>/data\<close>, and the public list
  with ten entries, \<^verbatim>\<open>/favicon.ico\<close> standing a second time after \<^verbatim>\<open>/js\<close>; as a
  set, the list holds nine prefixes. The map has these three keys. The root is public,
  the user state is the one given, and the deny handler is the default one, which answers
  with status 403 and the line \<^verbatim>\<open>Permission denied.\<close>
\<close>

theorem NewFromUserState_defaults:
  "index (paths (NewFromUserState st)) aPaths = [''/admin'']
   \<and> index (paths (NewFromUserState st)) uPaths = [''/profiles'', ''/data'']
   \<and> index (paths (NewFromUserState st)) pPaths =
       [''/'', ''/login'', ''/register'', ''/favicon.ico'', ''/style'',
        ''/img'', ''/js'', ''/favicon.ico'', ''/robots.txt'', ''/sitemap_index.xml'']
   \<and> set (index (paths (NewFromUserState st)) pPaths) =
       set [''/'', ''/login'', ''/register'', ''/favicon.ico'', ''/style'',
            ''/img'', ''/js'', ''/robots.txt'', ''/sitemap_index.xml'']
   \<and> dom (paths (NewFromUserState st)) = {aPaths, uPaths, pPaths}
   \<and> rootIsPublic (NewFromUserState st)
   \<and> GetUserState (NewFromUserState st) = st
   \<and> GetDenyFunc (NewFromUserState st) = DefaultDenyFunc
   \<and> status (DefaultDenyFunc recorder req world0) = Some 403
   \<and> body (DefaultDenyFunc recorder req world0) = ''Permission denied.'' @ [CHR 0x0A]"
proof -
  have "index (paths (NewFromUserState st)) uPaths = [''/profiles'', ''/data'']"
    by (simp add: index_def NewFromUserState_def aPaths_def uPaths_def pPaths_def)
  moreover have "dom (paths (NewFromUserState st)) = {aPaths, uPaths, pPaths}"
    by (auto simp: NewFromUserState_def)
  moreover have "status (DefaultDenyFunc recorder req world0) = Some 403"
    and "body (DefaultDenyFunc recorder req world0) = ''Permission denied.'' @ [CHR 0x0A]"
    by (simp_all add: DefaultDenyFunc_def http_Error_def StatusForbidden_def recorder_def
        world0_def)
  moreover have "set (index (paths (NewFromUserState st)) pPaths) =
       set [''/'', ''/login'', ''/register'', ''/favicon.ico'', ''/style'',
            ''/img'', ''/js'', ''/robots.txt'', ''/sitemap_index.xml'']"
    unfolding index_default_public by auto
  ultimately show ?thesis
    by (simp add: index_default_admin index_default_public rootIsPublic_default
        GetDenyFunc_def GetUserState_def state_default denied_default)
qed

theorem NewFromUserState_defaults_witness:
  "index (paths (NewFromUserState (answering True None))) pPaths =
       [''/'', ''/login'', ''/register'', ''/favicon.ico'', ''/style'',
        ''/img'', ''/js'', ''/favicon.ico'', ''/robots.txt'', ''/sitemap_index.xml'']
   \<and> length (index (paths (NewFromUserState (answering True None))) pPaths) = 10
   \<and> GetDenyFunc (NewFromUserState (answering True None)) recorder (request ''/admin'') world0 =
       world0\<lparr>headers := [''Content-Type'' \<mapsto> ''text/plain; charset=utf-8'',
                           ''X-Content-Type-Options'' \<mapsto> ''nosniff''],
              status := Some 403, body := ''Permission denied.'' @ [CHR 0x0A]\<rparr>"
  using NewFromUserState_defaults [of "answering True None" "request ''/admin''"]
  by (simp add: DefaultDenyFunc_def http_Error_def StatusForbidden_def recorder_def world0_def)

subsection \<open>Where the user state has no say\<close>

text \<open>
  C10. For every rule table and every path that has no admin prefix, or is \<^verbatim>\<open>/\<close> while
  the root is public: the verdict is the same for any two user states, in any two worlds,
  and the evaluation leaves the world as it was, so the user state is not asked.
\<close>

theorem verdict_independent_of_user_state:
  assumes "(rootIsPublic perm \<and> Path req = ''/'')
         \<or> list_all (\<lambda>prefix. \<not> HasPrefix (Path req) prefix) (index (paths perm) aPaths)"
  shows "fst (Rejected (perm\<lparr>state := st1\<rparr>) w req s1) =
           fst (Rejected (perm\<lparr>state := st2\<rparr>) w req s2)
       \<and> snd (Rejected (perm\<lparr>state := st1\<rparr>) w req s1) = s1"
proof (cases "rootIsPublic perm \<and> Path req = ''/''")
  case True
  then show ?thesis
    by (simp add: Rejected_def)
next
  case False
  with assms have none:
    "list_all (\<lambda>prefix. \<not> HasPrefix (Path req) prefix) (index (paths perm) aPaths)"
    by simp
  have "Rejected (perm\<lparr>state := st\<rparr>) w req s =
      (\<not> Rejected_public (Path req) (index (paths perm) pPaths), s)" for st s
    using False Rejected_admin_no_match [OF none, of st req s]
      Rejected_stages [of "perm\<lparr>state := st\<rparr>" req s False s w]
    by simp
  then show ?thesis
    by simp
qed

theorem verdict_independent_of_user_state_witness:
  "fst (Rejected (NewFromUserState (answering True None)) recorder
          (request ''/login'') world0) =
   fst (Rejected (NewFromUserState (answering False (Some (Error ''store unreachable''))))
          recorder (request ''/login'') (world0\<lparr>queries := 7\<rparr>))
   \<and> snd (Rejected (NewFromUserState (answering True None)) recorder
          (request ''/login'') world0) = world0"
  using verdict_independent_of_user_state
    [of "NewFromUserState (answering True None)" "request ''/login''"
        "answering True None" recorder world0
        "answering False (Some (Error ''store unreachable''))" "world0\<lparr>queries := 7\<rparr>"]
  by (simp add: index_default_admin HasPrefix_def request_def state_update_default)

end
